theory Spec2Isabelle
  imports Main
begin

section \<open>Data model\<close>

text \<open>
  A pandas Series is a typed list of cells; a missing value (NaN / null) is \<open>None\<close>.
  A DataFrame is an ordered list of named columns. Row labels are the row positions
  (the default RangeIndex), so an index of rows is a list of positions.
  The cell values themselves (floats, strings) are never inspected by the code modelled
  here, hence they are a type parameter \<open>'v\<close>.
\<close>

datatype dtype = Numeric | Categorical

datatype 'v series = Series (dtype: dtype) (cells: "'v option list")

type_synonym 'v frame = "(string \<times> 'v series) list"

text \<open>\<open>X.columns.tolist()\<close>\<close>

definition columns :: "'v frame \<Rightarrow> string list" where
  "columns X = map fst X"

text \<open>\<open>X[col_name]\<close>; a missing column raises KeyError (here \<open>None\<close>).\<close>

definition getitem :: "'v frame \<Rightarrow> string \<Rightarrow> 'v series option" where
  "getitem X col_name = map_of X col_name"

text \<open>\<open>s[s.isnull()].index.tolist()\<close>: the positions of the null cells, ascending.\<close>

definition null_index :: "'v series \<Rightarrow> nat list" where
  "null_index s = filter (\<lambda>i. cells s ! i = None) [0..<length (cells s)]"

text \<open>\<open>x.loc[imp_ix, :]\<close>: the rows at the given positions; a position that is not a
  row of \<open>x\<close> raises KeyError (here \<open>None\<close>).\<close>

definition loc_rows :: "'v frame \<Rightarrow> nat list \<Rightarrow> 'v frame option" where
  "loc_rows x ix =
     (if \<forall>(c, s) \<in> set x. \<forall>i \<in> set ix. i < length (cells s)
      then Some (map (\<lambda>(c, s). (c, Series (dtype s) (map (\<lambda>i. cells s ! i) ix))) x)
      else None)"

text \<open>\<open>any(pd.isnull(x).sum())\<close>: some cell of \<open>x\<close> is null.\<close>

definition any_null :: "'v frame \<Rightarrow> bool" where
  "any_null x = (\<exists>(c, s) \<in> set x. None \<in> set (cells s))"

text \<open>Python dictionaries keep insertion order: an association list whose keys are
  distinct; \<open>d[k] = v\<close> overwrites in place or appends.\<close>

fun dict_set :: "('k \<times> 'a) list \<Rightarrow> 'k \<Rightarrow> 'a \<Rightarrow> ('k \<times> 'a) list" where
  "dict_set [] k v = [(k, v)]"
| "dict_set ((k', v') # d) k v = (if k' = k then (k, v) # d else (k', v') # dict_set d k v)"

section \<open>Errors\<close>

text \<open>
  The exceptions of the code, under the names the specification gives them:
  \<^item> \<open>NotFittedError\<close>: sklearn's \<open>check_is_fitted\<close>;
  \<^item> \<open>SchemaMismatch\<close>: \<open>ValueError("Same columns that were fit must appear in transform.")\<close>;
  \<^item> \<open>UnknownStrategy\<close>: the ValueError of the strategy check;
  \<^item> \<open>InvalidFillValue\<close>: \<open>ValueError("... must be `mean` or `random`.")\<close>;
  \<^item> \<open>StrategyMismatch\<close>: the error of \<open>_not_num_series\<close>;
  \<^item> \<open>KeyError\<close>, \<open>AttributeError\<close>: Python's own, for a missing key or attribute;
  \<^item> \<open>External name\<close>: any exception raised inside the named collaborator, whose code
    is not part of the modelled files.
  A call returns its result or error together with the state of the instance at that
  moment, so that what an aborted call has already mutated stays visible.
\<close>

datatype error =
    NotFittedError
  | SchemaMismatch
  | UnknownStrategy
  | InvalidFillValue
  | StrategyMismatch
  | KeyError string
  | AttributeError string
  | External string

section \<open>Strategy names\<close>

text \<open>
  Modelled from the spec: the module \<open>method_names\<close> is not among the source files. The
  constants carry the identifiers listed in the class docstring of PredictiveImputer,
  in the module docstring of lrd.py (\<open>lrd\<close>) and in the specification (\<open>none\<close>).
\<close>

definition methods_DEFAULT :: string where "methods_DEFAULT = ''default''"
definition methods_LS :: string where "methods_LS = ''least squares''"
definition methods_BINARY_LOGISTIC :: string where "methods_BINARY_LOGISTIC = ''binary logistic''"
definition methods_MULTI_LOGISTIC :: string where "methods_MULTI_LOGISTIC = ''multinomial logistic''"
definition methods_STOCHASTIC :: string where "methods_STOCHASTIC = ''stochastic''"
definition methods_BAYESIAN_LS :: string where "methods_BAYESIAN_LS = ''bayesian least squares''"
definition methods_BAYESIAN_BINARY_LOGISTIC :: string where
  "methods_BAYESIAN_BINARY_LOGISTIC = ''bayesian binary logistic''"
definition methods_PMM :: string where "methods_PMM = ''pmm''"
definition methods_LRD :: string where "methods_LRD = ''lrd''"
definition methods_NONE :: string where "methods_NONE = ''none''"

section \<open>PredictiveImputer\<close>

subsection \<open>Configuration and state\<close>

text \<open>The three accepted shapes of the \<open>strategy\<close> argument (str, iterator, dict) and of
  the \<open>predictors\<close> argument.\<close>

datatype strategy_arg = Str string | Iter "string list" | Dict "(string \<times> string) list"

datatype predictors_arg = PStr string | PIter "string list" | PDict "(string \<times> string list) list"

text \<open>
  The instance. An attribute that exists only once it has been assigned
  (\<open>_strats\<close>, \<open>_preds\<close>, \<open>statistics_\<close>, \<open>imputed_\<close>, \<open>traces_\<close>, and the prepared data
  that \<open>_prep_fit_dataframe\<close> keeps on the instance) is an option, \<open>None\<close> while absent.
  \<open>'p\<close> is the type of fitted parameters, \<open>'t\<close> of sampling traces, \<open>'d\<close> of the prepared
  data. \<open>scaler\<close> records whether a scaler object was passed. The fields \<open>statistics\<close>,
  \<open>imputed\<close> and \<open>traces\<close> are the attributes \<open>statistics_\<close>, \<open>imputed_\<close> and \<open>traces_\<close>.
\<close>

record ('v, 'p, 't, 'd) imputer =
  strategy :: strategy_arg
  predictors :: predictors_arg
  fill_value :: "string option"
  copy :: bool
  scaler :: bool
  verbose :: bool
  strats :: "(string \<times> string) list option"
  preds :: "(string \<times> string list) list option"
  prepared :: "'d option"
  statistics :: "(string \<times> ('p \<times> string)) list option"
  imputed :: "(string \<times> nat list) list option"
  traces :: "(string \<times> 't) list option"

subsection \<open>Collaborators\<close>

text \<open>
  The functions the class calls whose code is in other modules (\<open>autoimpute.utils\<close>,
  \<open>BaseImputer\<close>, \<open>SingleImputer\<close>, \<open>predictive_methods\<close>) are parameters of the model.
  Each returns \<open>None\<close> where the Python raises.
  \<^item> \<open>check_nan_columns\<close>: the decorator's check of the frame, run before the method body;
  \<^item> \<open>check_strategy_fit\<close>, \<open>check_predictors_fit\<close>: resolve the per-column strategies
    and predictors;
  \<^item> \<open>prep_fit_dataframe\<close>, \<open>scaler_fit_transform\<close>, \<open>scaler_transform\<close>: build and
    rescale the prepared data kept on the instance;
  \<^item> \<open>prep_predictor_cols\<close>: the predictor matrix of one column, one row per row of the
    frame;
  \<^item> \<open>single_imputer\<close>: \<open>SingleImputer(...).fit_transform(x)\<close>;
  \<^item> \<open>pm_fit\<close>: the fit function registered under a strategy name; returns the fitted
    parameters and the name of the strategy it resolved to;
  \<^item> \<open>pm_predict\<close>: the values an impute routine computes for the rows of \<open>x\<close>, with the
    trace of its sampling.
\<close>

datatype imp_routine =
    Imp_least_squares_reg
  | Imp_logistic_reg
  | Imp_stochastic_reg
  | Imp_bayes_least_squares_reg
  | Imp_bayes_logistic_reg
  | Imp_pmm_reg

record ('v, 'p, 't, 'd) collaborators =
  check_nan_columns :: "'v frame \<Rightarrow> bool"
  check_strategy_fit :: "strategy_arg \<Rightarrow> string list \<Rightarrow> (string \<times> string) list option"
  check_predictors_fit :: "predictors_arg \<Rightarrow> string list \<Rightarrow> (string \<times> string list) list option"
  prep_fit_dataframe :: "'v frame \<Rightarrow> 'd option"
  scaler_fit_transform :: "'d \<Rightarrow> 'd option"
  scaler_transform :: "'d \<Rightarrow> 'd option"
  prep_predictor_cols :: "'d \<Rightarrow> string \<Rightarrow> (string \<times> string list) list \<Rightarrow> 'v frame option"
  single_imputer :: "'v frame \<Rightarrow> 'v frame option"
  pm_fit :: "string \<Rightarrow> 'v frame \<Rightarrow> 'v series \<Rightarrow> ('p \<times> string) option"
  pm_predict :: "imp_routine \<Rightarrow> 'v frame \<Rightarrow> 'p \<Rightarrow> string option \<Rightarrow> ('v list \<times> 't) option"

subsection \<open>The strategy table and its validation\<close>

text \<open>
  The class attribute \<open>strategies\<close>: a dictionary from strategy name to fit function.
  Its keys, in the order of the source; the function stored under a key \<open>k\<close> is
  \<open>pm_fit env k\<close>.
\<close>

definition strategies :: "string list" where
  "strategies =
     [methods_DEFAULT, methods_LS, methods_BINARY_LOGISTIC, methods_MULTI_LOGISTIC,
      methods_STOCHASTIC, methods_BAYESIAN_LS, methods_BAYESIAN_BINARY_LOGISTIC, methods_PMM]"

text \<open>
  Modelled from the spec: \<open>BaseImputer.check_strategy_allowed\<close> is not among the source
  files. From the docstring of the strategy setter (``ValueError: Strategies not valid
  (not in allowed strategies)'') and from the specification (``fails with UnknownStrategy
  if the identifier is not among the fixed enumerated set''): every strategy named by the
  argument must be one of the allowed names, otherwise the error; an accepted argument
  is returned as it is. The TypeError for an argument of another type has no counterpart:
  \<open>strategy_arg\<close> has the three accepted shapes only.
\<close>

definition named_strategies :: "strategy_arg \<Rightarrow> string list" where
  "named_strategies s = (case s of Str n \<Rightarrow> [n] | Iter ns \<Rightarrow> ns | Dict d \<Rightarrow> map snd d)"

definition check_strategy_allowed :: "string list \<Rightarrow> strategy_arg \<Rightarrow> error + strategy_arg" where
  "check_strategy_allowed strat_names s =
     (if \<forall>n \<in> set (named_strategies s). n \<in> set strat_names then Inr s
      else Inl UnknownStrategy)"

text \<open>The setter of the \<open>strategy\<close> property: \<open>strat_names = self.strategies.keys()\<close>.\<close>

definition strategy_setter ::
  "('v, 'p, 't, 'd) imputer \<Rightarrow> strategy_arg \<Rightarrow> (error + unit) \<times> ('v, 'p, 't, 'd) imputer" where
  "strategy_setter self s =
     (let strat_names = strategies
      in case check_strategy_allowed strat_names s of
           Inl e \<Rightarrow> (Inl e, self)
         | Inr s' \<Rightarrow> (Inr (), self\<lparr>strategy := s'\<rparr>))"

text \<open>
  \<open>__init__\<close>: \<open>BaseImputer.__init__\<close> stores \<open>scaler\<close> and \<open>verbose\<close>; then the four
  assignments, the first of which runs the setter. A new instance has none of the
  fit-time attributes. The defaults of the source are \<open>strategy = "default"\<close>,
  \<open>predictors = "all"\<close>, \<open>fill_value = None\<close>, \<open>copy = True\<close>, no scaler, not verbose.
\<close>

definition PredictiveImputer_init ::
  "strategy_arg \<Rightarrow> predictors_arg \<Rightarrow> string option \<Rightarrow> bool \<Rightarrow> bool \<Rightarrow> bool
   \<Rightarrow> error + ('v, 'p, 't, 'd) imputer" where
  "PredictiveImputer_init s p fv c sc vb =
     (let self = \<lparr>strategy = Str [], predictors = PStr [], fill_value = None, copy = True,
                  scaler = sc, verbose = vb, strats = None, preds = None, prepared = None,
                  statistics = None, imputed = None, traces = None\<rparr>
      in case strategy_setter self s of
           (Inl e, _) \<Rightarrow> Inl e
         | (Inr _, self1) \<Rightarrow> Inr (self1\<lparr>predictors := p, fill_value := fv, copy := c\<rparr>))"

subsection \<open>Validators\<close>

text \<open>\<open>_fit_strategy_validator\<close>\<close>

definition fit_strategy_validator ::
  "('v, 'p, 't, 'd) collaborators \<Rightarrow> ('v, 'p, 't, 'd) imputer \<Rightarrow> 'v frame
   \<Rightarrow> (error + unit) \<times> ('v, 'p, 't, 'd) imputer" where
  "fit_strategy_validator env self X =
     (let cols = columns X
      in case check_strategy_fit env (strategy self) cols of
           None \<Rightarrow> (Inl (External ''check_strategy_fit''), self)
         | Some ss \<Rightarrow>
             (let self1 = self\<lparr>strats := Some ss\<rparr>
              in case check_predictors_fit env (predictors self1) cols of
                   None \<Rightarrow> (Inl (External ''check_predictors_fit''), self1)
                 | Some ps \<Rightarrow>
                     (let self2 = self1\<lparr>preds := Some ps\<rparr>
                      in case prep_fit_dataframe env X of
                           None \<Rightarrow> (Inl (External ''_prep_fit_dataframe''), self2)
                         | Some d \<Rightarrow>
                             (let self3 = self2\<lparr>prepared := Some d\<rparr>
                              in if scaler self3
                                 then (case scaler_fit_transform env d of
                                         None \<Rightarrow> (Inl (External ''_scaler_fit_transform''), self3)
                                       | Some d' \<Rightarrow> (Inr (), self3\<lparr>prepared := Some d'\<rparr>))
                                 else (Inr (), self3)))))"

text \<open>
  \<open>_transform_strategy_validator\<close>: \<open>check_is_fitted(self, "statistics_")\<close> raises
  NotFittedError when the attribute does not exist; then the columns that were fit (the
  keys of \<open>_strats\<close>) minus the columns of \<open>X\<close> must be empty; then, for new data, the
  frame is prepared again.
\<close>

definition transform_strategy_validator ::
  "('v, 'p, 't, 'd) collaborators \<Rightarrow> ('v, 'p, 't, 'd) imputer \<Rightarrow> 'v frame \<Rightarrow> bool
   \<Rightarrow> (error + unit) \<times> ('v, 'p, 't, 'd) imputer" where
  "transform_strategy_validator env self X new_data =
     (case statistics self of
        None \<Rightarrow> (Inl NotFittedError, self)
      | Some _ \<Rightarrow>
          (let X_cols = columns X
           in case strats self of
                None \<Rightarrow> (Inl (AttributeError ''_strats''), self)
              | Some ss \<Rightarrow>
                  (let fit_cols = map fst ss;
                       diff_fit = filter (\<lambda>c. c \<notin> set X_cols) fit_cols
                   in if diff_fit \<noteq> [] then (Inl SchemaMismatch, self)
                      else if new_data
                      then (case prep_fit_dataframe env X of
                              None \<Rightarrow> (Inl (External ''_prep_fit_dataframe''), self)
                            | Some d \<Rightarrow>
                                (let self1 = self\<lparr>prepared := Some d\<rparr>
                                 in if scaler self1
                                    then (case scaler_transform env d of
                                            None \<Rightarrow> (Inl (External ''_scaler_transform''), self1)
                                          | Some d' \<Rightarrow> (Inr (), self1\<lparr>prepared := Some d'\<rparr>))
                                    else (Inr (), self1)))
                      else (Inr (), self))))"

subsection \<open>fit\<close>

text \<open>
  \<open>self._prep_predictor_cols(col_name, self._preds)\<close> reads the prepared data and the
  predictors from the instance.
\<close>

definition predictor_cols ::
  "('v, 'p, 't, 'd) collaborators \<Rightarrow> ('v, 'p, 't, 'd) imputer \<Rightarrow> string \<Rightarrow> error + 'v frame" where
  "predictor_cols env self col_name =
     (case preds self of
        None \<Rightarrow> Inl (AttributeError ''_preds'')
      | Some ps \<Rightarrow>
          (case prepared self of
             None \<Rightarrow> Inl (AttributeError ''_prep_fit_dataframe'')
           | Some d \<Rightarrow>
               (case prep_predictor_cols env d col_name ps of
                  None \<Rightarrow> Inl (External ''_prep_predictor_cols'')
                | Some x \<Rightarrow> Inr x)))"

text \<open>
  The loop of \<open>fit\<close> over \<open>self._strats.items()\<close>. An exception in the body leaves the
  entries of the columns fitted so far in \<open>statistics_\<close>.
\<close>

fun fit_columns ::
  "('v, 'p, 't, 'd) collaborators \<Rightarrow> 'v frame \<Rightarrow> (string \<times> string) list
   \<Rightarrow> ('v, 'p, 't, 'd) imputer \<Rightarrow> (error + unit) \<times> ('v, 'p, 't, 'd) imputer" where
  "fit_columns env X [] self = (Inr (), self)"
| "fit_columns env X ((col_name, func_name) # rest) self =
     (if func_name \<notin> set strategies then (Inl (KeyError func_name), self)
      else case predictor_cols env self col_name of
             Inl e \<Rightarrow> (Inl e, self)
           | Inr x \<Rightarrow>
               (case getitem X col_name of
                  None \<Rightarrow> (Inl (KeyError col_name), self)
                | Some y \<Rightarrow>
                    (case pm_fit env func_name x y of
                       None \<Rightarrow> (Inl (External ''fit''), self)
                     | Some (fit_param, fit_name) \<Rightarrow>
                         (case statistics self of
                            None \<Rightarrow> (Inl (AttributeError ''statistics_''), self)
                          | Some stats \<Rightarrow>
                              fit_columns env X rest
                                (self\<lparr>statistics :=
                                   Some (dict_set stats col_name (fit_param, fit_name))\<rparr>)))))"

text \<open>
  \<open>fit\<close>, under the decorator \<open>check_nan_columns\<close>. The verbose printing has no effect
  on the instance or the result and is left out. The method returns \<open>self\<close>: the
  instance in the second component.
\<close>

definition PredictiveImputer_fit ::
  "('v, 'p, 't, 'd) collaborators \<Rightarrow> ('v, 'p, 't, 'd) imputer \<Rightarrow> 'v frame
   \<Rightarrow> (error + unit) \<times> ('v, 'p, 't, 'd) imputer" where
  "PredictiveImputer_fit env self X =
     (if \<not> check_nan_columns env X then (Inl (External ''check_nan_columns''), self)
      else case fit_strategy_validator env self X of
             (Inl e, self1) \<Rightarrow> (Inl e, self1)
           | (Inr _, self1) \<Rightarrow>
               (let self2 = self1\<lparr>statistics := Some []\<rparr>
                in case strats self2 of
                     None \<Rightarrow> (Inl (AttributeError ''_strats''), self2)
                   | Some ss \<Rightarrow> fit_columns env X ss self2))"

subsection \<open>transform\<close>

text \<open>
  \<open>X.loc[imp_ix, col_name] = vals\<close>: the cells of the column at the positions of
  \<open>imp_ix\<close> take the values, in order; all other cells and columns stay. Column names
  are meant to be distinct; on a repeated name \<open>getitem\<close> reads and \<open>loc_assign\<close> writes
  the first column of that name.
\<close>

fun assign_cells :: "'v option list \<Rightarrow> nat list \<Rightarrow> 'v list \<Rightarrow> 'v option list" where
  "assign_cells cs (i # ix) (v # vs) = assign_cells (cs[i := Some v]) ix vs"
| "assign_cells cs _ _ = cs"

fun loc_assign :: "'v frame \<Rightarrow> string \<Rightarrow> nat list \<Rightarrow> 'v list \<Rightarrow> 'v frame" where
  "loc_assign [] col_name ix vals = []"
| "loc_assign ((c, s) # X) col_name ix vals =
     (if c = col_name then (c, Series (dtype s) (assign_cells (cells s) ix vals)) # X
      else (c, s) # loc_assign X col_name ix vals)"

text \<open>
  Modelled from the spec: the impute routines \<open>_imp_least_squares_reg\<close>,
  \<open>_imp_logistic_reg\<close>, \<open>_imp_stochastic_reg\<close>, \<open>_imp_bayes_least_squares_reg\<close>,
  \<open>_imp_bayes_logistic_reg\<close> and \<open>_imp_pmm_reg\<close> of the module \<open>predictive_methods\<close> are
  not among the source files. \<open>transform\<close> passes them the frame, the column name, the
  predictor rows, the fitted parameters and the null positions, and reads the frame
  afterwards: they write into the frame. From the specification: ``dispatches to the
  model's impute, splicing returned values into exactly the null positions (non-null
  positions in that column are left untouched)'', where impute maps predictors and
  fitted parameters to values. The values are those of the collaborator \<open>pm_predict\<close>;
  a number of values other than the number of positions cannot be assigned and raises.
\<close>

definition pm_imp ::
  "('v, 'p, 't, 'd) collaborators \<Rightarrow> imp_routine \<Rightarrow> 'v frame \<Rightarrow> string \<Rightarrow> 'v frame \<Rightarrow> 'p
   \<Rightarrow> nat list \<Rightarrow> string option \<Rightarrow> error + ('v frame \<times> 't)" where
  "pm_imp env routine X col_name x fill imp_ix fv =
     (case pm_predict env routine x fill fv of
        None \<Rightarrow> Inl (External ''impute'')
      | Some (vals, tr) \<Rightarrow>
          if length vals \<noteq> length imp_ix then Inl (External ''impute'')
          else Inr (loc_assign X col_name imp_ix vals, tr))"

text \<open>A call whose return value \<open>transform\<close> drops, and a call whose return value it
  stores in \<open>self.traces_[col_name]\<close>.\<close>

definition imp_call ::
  "('v, 'p, 't, 'd) collaborators \<Rightarrow> imp_routine \<Rightarrow> string \<Rightarrow> 'v frame \<Rightarrow> 'p \<Rightarrow> nat list
   \<Rightarrow> 'v frame \<Rightarrow> ('v, 'p, 't, 'd) imputer \<Rightarrow> (error + 'v frame) \<times> ('v, 'p, 't, 'd) imputer" where
  "imp_call env routine col_name x fill imp_ix X self =
     (case pm_imp env routine X col_name x fill imp_ix None of
        Inl e \<Rightarrow> (Inl e, self)
      | Inr (X', _) \<Rightarrow> (Inr X', self))"

definition imp_call_trace ::
  "('v, 'p, 't, 'd) collaborators \<Rightarrow> imp_routine \<Rightarrow> string \<Rightarrow> 'v frame \<Rightarrow> 'p \<Rightarrow> nat list
   \<Rightarrow> 'v frame \<Rightarrow> ('v, 'p, 't, 'd) imputer \<Rightarrow> (error + 'v frame) \<times> ('v, 'p, 't, 'd) imputer" where
  "imp_call_trace env routine col_name x fill imp_ix X self =
     (case pm_imp env routine X col_name x fill imp_ix (fill_value self) of
        Inl e \<Rightarrow> (Inl e, self)
      | Inr (X', tr) \<Rightarrow>
          (case traces self of
             None \<Rightarrow> (Inl (AttributeError ''traces_''), self)
           | Some ts \<Rightarrow> (Inr X', self\<lparr>traces := Some (dict_set ts col_name tr)\<rparr>)))"

text \<open>Sequencing of statements: an exception ends the sequence; \<open>only_if\<close> is an \<open>if\<close>
  without \<open>else\<close>.\<close>

definition and_then ::
  "(error + 'a) \<times> 's \<Rightarrow> ('a \<Rightarrow> 's \<Rightarrow> (error + 'b) \<times> 's) \<Rightarrow> (error + 'b) \<times> 's" where
  "and_then r f = (case r of (Inl e, s) \<Rightarrow> (Inl e, s) | (Inr a, s) \<Rightarrow> f a s)"

definition only_if :: "bool \<Rightarrow> ('a \<Rightarrow> 's \<Rightarrow> (error + 'a) \<times> 's) \<Rightarrow> 'a \<Rightarrow> 's \<Rightarrow> (error + 'a) \<times> 's" where
  "only_if c f a s = (if c then f a s else (Inr a, s))"

text \<open>The seven \<open>if\<close> statements at the end of the loop body, one after the other as in
  the source; the last, \<open>if strat == methods.NONE: pass\<close>, does nothing.\<close>

definition dispatch ::
  "('v, 'p, 't, 'd) collaborators \<Rightarrow> string \<Rightarrow> 'v frame \<Rightarrow> 'p \<Rightarrow> nat list \<Rightarrow> string
   \<Rightarrow> 'v frame \<Rightarrow> ('v, 'p, 't, 'd) imputer \<Rightarrow> (error + 'v frame) \<times> ('v, 'p, 't, 'd) imputer" where
  "dispatch env col_name x fill imp_ix strat X self =
     and_then (and_then (and_then (and_then (and_then (and_then
       (only_if (strat = methods_LS)
          (imp_call env Imp_least_squares_reg col_name x fill imp_ix) X self)
       (only_if (strat \<in> {methods_BINARY_LOGISTIC, methods_MULTI_LOGISTIC})
          (imp_call env Imp_logistic_reg col_name x fill imp_ix)))
       (only_if (strat = methods_STOCHASTIC)
          (imp_call env Imp_stochastic_reg col_name x fill imp_ix)))
       (only_if (strat = methods_BAYESIAN_LS)
          (imp_call_trace env Imp_bayes_least_squares_reg col_name x fill imp_ix)))
       (only_if (strat = methods_BAYESIAN_BINARY_LOGISTIC)
          (imp_call_trace env Imp_bayes_logistic_reg col_name x fill imp_ix)))
       (only_if (strat = methods_PMM)
          (imp_call_trace env Imp_pmm_reg col_name x fill imp_ix)))
       (only_if (strat = methods_NONE) (\<lambda>X self. (Inr X, self)))"

text \<open>
  The part of the loop body after \<open>continue\<close>: the predictor rows of the null positions,
  their missing covariates filled by the SingleImputer, then the dispatch. The statement
  \<open>x.index = self._X_idx\<close> for new data relabels the rows of \<open>x\<close> with the row labels of
  the prepared frame; with positions as labels it changes nothing.
\<close>

definition impute_column ::
  "('v, 'p, 't, 'd) collaborators \<Rightarrow> string \<Rightarrow> 'p \<Rightarrow> string \<Rightarrow> nat list
   \<Rightarrow> 'v frame \<Rightarrow> ('v, 'p, 't, 'd) imputer \<Rightarrow> (error + 'v frame) \<times> ('v, 'p, 't, 'd) imputer" where
  "impute_column env col_name fill strat imp_ix X self =
     (case predictor_cols env self col_name of
        Inl e \<Rightarrow> (Inl e, self)
      | Inr x0 \<Rightarrow>
          (case loc_rows x0 imp_ix of
             None \<Rightarrow> (Inl (KeyError ''imp_ix''), self)
           | Some x1 \<Rightarrow>
               (case (if any_null x1 then single_imputer env x1 else Some x1) of
                  None \<Rightarrow> (Inl (External ''SingleImputer''), self)
                | Some x \<Rightarrow> dispatch env col_name x fill imp_ix strat X self)))"

text \<open>The loop of \<open>transform\<close> over \<open>self.statistics_.items()\<close>; an entry is the pair of
  \<open>fit_data["param"]\<close> and \<open>fit_data["strategy"]\<close>.\<close>

fun transform_columns ::
  "('v, 'p, 't, 'd) collaborators \<Rightarrow> (string \<times> ('p \<times> string)) list
   \<Rightarrow> 'v frame \<Rightarrow> ('v, 'p, 't, 'd) imputer \<Rightarrow> (error + 'v frame) \<times> ('v, 'p, 't, 'd) imputer" where
  "transform_columns env [] X self = (Inr X, self)"
| "transform_columns env ((col_name, fill, strat) # rest) X self =
     (case getitem X col_name of
        None \<Rightarrow> (Inl (KeyError col_name), self)
      | Some s \<Rightarrow>
          (case imputed self of
             None \<Rightarrow> (Inl (AttributeError ''imputed_''), self)
           | Some imps \<Rightarrow>
               (let imp_ix = null_index s;
                    self1 = self\<lparr>imputed := Some (dict_set imps col_name imp_ix)\<rparr>
                in if imp_ix = [] then transform_columns env rest X self1
                   else and_then (impute_column env col_name fill strat imp_ix X self1)
                          (transform_columns env rest))))"

text \<open>
  \<open>transform\<close>, under the decorator \<open>check_nan_columns\<close>. \<open>X.copy()\<close> decides whether
  the caller's frame object or a copy of it is written and returned; the returned table
  is the same either way. The verbose printing is left out.
\<close>

definition PredictiveImputer_transform ::
  "('v, 'p, 't, 'd) collaborators \<Rightarrow> ('v, 'p, 't, 'd) imputer \<Rightarrow> 'v frame \<Rightarrow> bool
   \<Rightarrow> (error + 'v frame) \<times> ('v, 'p, 't, 'd) imputer" where
  "PredictiveImputer_transform env self X new_data =
     (if \<not> check_nan_columns env X then (Inl (External ''check_nan_columns''), self)
      else case transform_strategy_validator env self X new_data of
             (Inl e, self1) \<Rightarrow> (Inl e, self1)
           | (Inr _, self1) \<Rightarrow>
               (let self2 = self1\<lparr>imputed := Some [], traces := Some []\<rparr>
                in case statistics self2 of
                     None \<Rightarrow> (Inl (AttributeError ''statistics_''), self2)
                   | Some stats \<Rightarrow> transform_columns env stats X self2))"

text \<open>\<open>fit_transform\<close>: \<open>return self.fit(X).transform(X, False)\<close>.\<close>

definition PredictiveImputer_fit_transform ::
  "('v, 'p, 't, 'd) collaborators \<Rightarrow> ('v, 'p, 't, 'd) imputer \<Rightarrow> 'v frame
   \<Rightarrow> (error + 'v frame) \<times> ('v, 'p, 't, 'd) imputer" where
  "PredictiveImputer_fit_transform env self X =
     (case PredictiveImputer_fit env self X of
        (Inl e, self1) \<Rightarrow> (Inl e, self1)
      | (Inr _, self1) \<Rightarrow> PredictiveImputer_transform env self1 X False)"

section \<open>LRDImputer\<close>

subsection \<open>State and collaborators\<close>

text \<open>
  \<open>'n\<close> is the type of numbers. The sklearn LinearRegression held in \<open>self.lm\<close> is
  unfitted or carries \<open>intercept_\<close> and \<open>coef_\<close>. The prior mean of beta is a number given
  by the caller or the coefficient vector of the regression. The pymc3 model is the
  record of what it was built from; \<open>y_obs\<close> is the two-column frame of \<open>y\<close> and \<open>y_pred\<close>.
\<close>

datatype 'n linear_regression = Unfitted | Fitted (intercept: 'n) (coef: "'n list")

datatype 'n beta_mean = Scalar 'n | Vector "'n list"

datatype 'n bayes_model =
  Model (alpha_mu: 'n) (alpha_sd: 'n) (beta_mu: "'n beta_mean") (beta_sd: 'n) (beta_shape: nat)
        (sigma_beta: 'n) (design: "'n frame") (observed: "'n series")

type_synonym 'n y_obs = "'n series \<times> 'n list"

text \<open>The function handed to \<open>_local_residuals\<close>: \<open>np.mean\<close> or \<open>np.random.choice\<close>.\<close>

datatype aggregate = Np_mean | Np_random_choice

text \<open>
  The instance; \<open>lrd_fill_value\<close> and \<open>lrd_statistics\<close> are the attributes \<open>fill_value\<close>
  and \<open>statistics_\<close>, \<open>trace\<close> is \<open>trace_\<close>. \<open>statistics_\<close> is the pair of
  \<open>{"model": ..., "y_obs": ...}\<close> and the strategy name.
\<close>

record ('n, 'tr) lrd_imputer =
  am :: "'n option"
  asd :: 'n
  bm :: "'n beta_mean option"
  bsd :: 'n
  sig :: 'n
  sample :: nat
  tune :: nat
  init :: string
  lrd_fill_value :: string
  neighbors :: int
  lm :: "'n linear_regression"
  lrd_statistics :: "(('n bayes_model \<times> 'n y_obs) \<times> string) option"
  trace :: "'tr option"
  y_pred :: "'n list option"
  alphas :: "'n option"
  betas :: "'n list option"

text \<open>
  The library calls and the helper of another module are parameters; one collaborator
  set is one run of the program, so a random draw is a function in it.
  \<^item> \<open>lm_fit\<close>: \<open>LinearRegression.fit\<close>, giving \<open>intercept_\<close> and \<open>coef_\<close>, \<open>None\<close> when
    it raises; \<open>lm_predict\<close>: \<open>predict\<close>;
  \<^item> \<open>pm_sample\<close>: \<open>pm.sample\<close> inside the model, the Markov-chain sampling of the
    posterior, \<open>None\<close> when it raises;
  \<^item> \<open>choice_alpha\<close>: \<open>np.random.choice(tr["alpha"])\<close>; \<open>draw_beta\<close>: the draw from the
    multivariate normal of the sampled betas;
  \<^item> \<open>linear_pred\<close>: \<open>alpha_bayes + beta_bayes.dot(X.T)\<close>, one prediction per row of \<open>X\<close>
    (the \<open>[0]\<close> for a single column only removes the extra dimension);
  \<^item> \<open>local_residuals\<close>: \<open>_local_residuals\<close> of \<open>autoimpute.imputations.helpers\<close>.
\<close>

record ('n, 'tr) lrd_collaborators =
  lm_fit :: "'n frame \<Rightarrow> 'n series \<Rightarrow> ('n \<times> 'n list) option"
  lm_predict :: "'n \<times> 'n list \<Rightarrow> 'n frame \<Rightarrow> 'n list"
  pm_sample :: "'n bayes_model \<Rightarrow> nat \<Rightarrow> nat \<Rightarrow> string \<Rightarrow> 'tr option"
  choice_alpha :: "'tr \<Rightarrow> 'n"
  draw_beta :: "'tr \<Rightarrow> 'n list"
  linear_pred :: "'n \<Rightarrow> 'n list \<Rightarrow> 'n frame \<Rightarrow> 'n list"
  local_residuals :: "'n \<Rightarrow> int \<Rightarrow> 'n y_obs \<Rightarrow> aggregate \<Rightarrow> 'n"

subsection \<open>Operations\<close>

text \<open>\<open>__init__\<close> stores its arguments and creates an unfitted LinearRegression. The
  defaults of the source are \<open>am = None\<close>, \<open>asd = 10\<close>, \<open>bm = None\<close>, \<open>bsd = 10\<close>,
  \<open>sig = 1\<close>, \<open>sample = 1000\<close>, \<open>tune = 1000\<close>, \<open>init = "auto"\<close>,
  \<open>fill_value = "random"\<close>, \<open>neighbors = 5\<close>.\<close>

definition LRDImputer_init ::
  "'n option \<Rightarrow> 'n \<Rightarrow> 'n beta_mean option \<Rightarrow> 'n \<Rightarrow> 'n \<Rightarrow> nat \<Rightarrow> nat \<Rightarrow> string \<Rightarrow> string \<Rightarrow> int
   \<Rightarrow> ('n, 'tr) lrd_imputer" where
  "LRDImputer_init am0 asd0 bm0 bsd0 sig0 sample0 tune0 init0 fill_value0 neighbors0 =
     \<lparr>am = am0, asd = asd0, bm = bm0, bsd = bsd0, sig = sig0, sample = sample0, tune = tune0,
      init = init0, lrd_fill_value = fill_value0, neighbors = neighbors0, lm = Unfitted,
      lrd_statistics = None, trace = None, y_pred = None, alphas = None, betas = None\<rparr>"

text \<open>
  Modelled from the spec: \<open>_not_num_series\<close> of \<open>autoimpute.imputations.errors\<close> is not
  among the source files. From the specification: a numeric-only strategy on a
  categorical column raises StrategyMismatch. The result is the error raised, if any.
\<close>

definition not_num_series :: "string \<Rightarrow> 'n series \<Rightarrow> error option" where
  "not_num_series strat y = (if dtype y = Numeric then None else Some StrategyMismatch)"

text \<open>
  \<open>fit\<close>. \<open>self.lm.fit(X, y)\<close> fits the regression held by the instance. The two
  statements \<open>if self.am is None: self.am = self.lm.intercept_\<close> and
  \<open>if self.bm is None: self.bm = self.lm.coef_\<close> are the two updates of \<open>am\<close> and \<open>bm\<close>;
  the model is then built from the attributes.
\<close>

definition LRDImputer_fit ::
  "('n, 'tr) lrd_collaborators \<Rightarrow> ('n, 'tr) lrd_imputer \<Rightarrow> 'n frame \<Rightarrow> 'n series
   \<Rightarrow> (error + unit) \<times> ('n, 'tr) lrd_imputer" where
  "LRDImputer_fit env self X y =
     (case not_num_series methods_LRD y of
        Some e \<Rightarrow> (Inl e, self)
      | None \<Rightarrow>
          (let nc = length (columns X)
           in case lm_fit env X y of
                None \<Rightarrow> (Inl (External ''LinearRegression.fit''), self)
              | Some (a, b) \<Rightarrow>
                  (let self1 = self\<lparr>lm := Fitted a b\<rparr>;
                       y_df = (y, lm_predict env (a, b) X);
                       am1 = (case am self1 of None \<Rightarrow> intercept (lm self1) | Some m \<Rightarrow> m);
                       self2 = self1\<lparr>am := Some am1\<rparr>;
                       bm1 = (case bm self2 of None \<Rightarrow> Vector (coef (lm self2)) | Some m \<Rightarrow> m);
                       self3 = self2\<lparr>bm := Some bm1\<rparr>;
                       fit_model = Model am1 (asd self3) bm1 (bsd self3) nc (sig self3) X y;
                       params = (fit_model, y_df)
                   in (Inr (), self3\<lparr>lrd_statistics := Some (params, methods_LRD)\<rparr>))))"



section \<open>Stand-ins for the collaborators\<close>

text \<open>
  To run the model on concrete tables the collaborators need values. The following
  stand-ins are only used to evaluate examples; every general theorem below holds for
  all collaborators.

  Modelled from the spec: the code of the collaborators is not among the source files.
  The column check rejects a frame with a column that has no observed value
  (AllColumnsNull). A strategy given as a string is broadcast to all columns, an
  iterator gives one strategy per column, a dictionary names its columns. The default
  predictors of a column are all other columns. The fallback imputer fills a missing
  covariate with a fixed value. A numeric-only strategy rejects a categorical column
  and vice versa; \<open>default\<close> resolves to least squares for a numeric column and to
  binary logistic for a categorical one (as the test of the default imputer expects).
  Each impute routine yields one value per predictor row.
\<close>

definition numeric_only :: "string list" where
  "numeric_only = [methods_LS, methods_STOCHASTIC, methods_BAYESIAN_LS, methods_PMM]"

definition categorical_only :: "string list" where
  "categorical_only =
     [methods_BINARY_LOGISTIC, methods_MULTI_LOGISTIC, methods_BAYESIAN_BINARY_LOGISTIC]"

definition demo_check_nan_columns :: "int frame \<Rightarrow> bool" where
  "demo_check_nan_columns X = list_all (\<lambda>(c, s). list_ex (\<lambda>v. v \<noteq> None) (cells s)) X"

definition demo_check_strategy_fit ::
  "strategy_arg \<Rightarrow> string list \<Rightarrow> (string \<times> string) list option" where
  "demo_check_strategy_fit s cols =
     (case s of
        Str n \<Rightarrow> Some (map (\<lambda>c. (c, n)) cols)
      | Iter ns \<Rightarrow> if length ns = length cols then Some (zip cols ns) else None
      | Dict d \<Rightarrow> if list_all (\<lambda>(c, n). c \<in> set cols) d then Some d else None)"

definition demo_check_predictors_fit ::
  "predictors_arg \<Rightarrow> string list \<Rightarrow> (string \<times> string list) list option" where
  "demo_check_predictors_fit p cols =
     (case p of
        PStr _ \<Rightarrow> Some (map (\<lambda>c. (c, filter (\<lambda>k. k \<noteq> c) cols)) cols)
      | PIter ps \<Rightarrow> Some (map (\<lambda>c. (c, filter (\<lambda>k. k \<noteq> c) ps)) cols)
      | PDict d \<Rightarrow> Some (map (\<lambda>c. (c, case map_of d c of
                                           None \<Rightarrow> filter (\<lambda>k. k \<noteq> c) cols
                                         | Some ps \<Rightarrow> ps)) cols))"

definition demo_prep_predictor_cols ::
  "int frame \<Rightarrow> string \<Rightarrow> (string \<times> string list) list \<Rightarrow> int frame option" where
  "demo_prep_predictor_cols d col_name ps =
     (case map_of ps col_name of
        None \<Rightarrow> None
      | Some names \<Rightarrow> Some (filter (\<lambda>(c, s). c \<in> set names) d))"

definition demo_single_imputer :: "int frame \<Rightarrow> int frame option" where
  "demo_single_imputer x =
     Some (map (\<lambda>(c, s). (c, Series (dtype s)
                               (map (\<lambda>v. case v of None \<Rightarrow> Some 0 | Some w \<Rightarrow> Some w) (cells s)))) x)"

definition demo_pm_fit :: "string \<Rightarrow> int frame \<Rightarrow> int series \<Rightarrow> (nat \<times> string) option" where
  "demo_pm_fit name x y =
     (let resolved = (if name = methods_DEFAULT
                      then (if dtype y = Numeric then methods_LS else methods_BINARY_LOGISTIC)
                      else name)
      in if resolved \<in> set numeric_only \<and> dtype y \<noteq> Numeric then None
         else if resolved \<in> set categorical_only \<and> dtype y \<noteq> Categorical then None
         else Some (length x, resolved))"

definition demo_pm_predict ::
  "imp_routine \<Rightarrow> int frame \<Rightarrow> nat \<Rightarrow> string option \<Rightarrow> (int list \<times> nat) option" where
  "demo_pm_predict routine x fill fv =
     (case x of
        [] \<Rightarrow> None
      | (c, s) # _ \<Rightarrow> Some (map (\<lambda>v. case v of None \<Rightarrow> 0 | Some w \<Rightarrow> 2 * w) (cells s), fill))"

definition demo_env :: "(int, nat, nat, int frame) collaborators" where
  "demo_env =
     \<lparr>check_nan_columns = demo_check_nan_columns,
      check_strategy_fit = demo_check_strategy_fit,
      check_predictors_fit = demo_check_predictors_fit,
      prep_fit_dataframe = Some,
      scaler_fit_transform = Some,
      scaler_transform = Some,
      prep_predictor_cols = demo_prep_predictor_cols,
      single_imputer = demo_single_imputer,
      pm_fit = demo_pm_fit,
      pm_predict = demo_pm_predict\<rparr>"

text \<open>The table of the specification's scenario, \<open>{A: [1, 2, null, 4], B: [10, 20, 30,
  40]}\<close>; the same with a categorical third column and a missing class; the table
  without column \<open>A\<close>; a table with no missing value.\<close>

definition df_AB :: "int frame" where
  "df_AB = [(''A'', Series Numeric [Some 1, Some 2, None, Some 4]),
            (''B'', Series Numeric [Some 10, Some 20, Some 30, Some 40])]"

definition df_ABC :: "int frame" where
  "df_ABC = [(''A'', Series Numeric [Some 1, Some 2, None, Some 4]),
             (''B'', Series Numeric [Some 10, Some 20, Some 30, Some 40]),
             (''C'', Series Categorical [Some 0, None, Some 1, Some 0])]"

definition df_B_only :: "int frame" where
  "df_B_only = [(''B'', Series Numeric [Some 10, Some 20, Some 30, Some 40])]"


text \<open>A new PredictiveImputer with the given strategy and the defaults otherwise;
  \<open>imputer_of\<close> takes the instance out of the constructor's result (a blank instance
  where the constructor raised).\<close>

definition new_imputer :: "strategy_arg \<Rightarrow> error + (int, nat, nat, int frame) imputer" where
  "new_imputer s = PredictiveImputer_init s (PStr ''all'') None True False False"

definition imputer_of :: "error + (int, nat, nat, int frame) imputer \<Rightarrow> (int, nat, nat, int frame) imputer" where
  "imputer_of r =
     (case r of
        Inr self \<Rightarrow> self
      | Inl _ \<Rightarrow> \<lparr>strategy = Str [], predictors = PStr [], fill_value = None, copy = True,
                  scaler = False, verbose = False, strats = None, preds = None, prepared = None,
                  statistics = None, imputed = None, traces = None\<rparr>)"

text \<open>An imputer with the strategy \<open>least squares\<close> for all columns; the instance after
  \<open>fit\<close> on the two-column table; the instance after \<open>fit\<close> on the three-column table,
  where the fit of the categorical column raises.\<close>

definition imp_ls :: "(int, nat, nat, int frame) imputer" where
  "imp_ls = imputer_of (new_imputer (Str methods_LS))"

definition fitted_AB :: "(int, nat, nat, int frame) imputer" where
  "fitted_AB = snd (PredictiveImputer_fit demo_env imp_ls df_AB)"

definition failed_ABC :: "(int, nat, nat, int frame) imputer" where
  "failed_ABC = snd (PredictiveImputer_fit demo_env imp_ls df_ABC)"

text \<open>The table after the null of column \<open>A\<close> has been filled by the stand-in routine.\<close>

definition df_AB_imputed :: "int frame" where
  "df_AB_imputed = [(''A'', Series Numeric [Some 1, Some 2, Some 60, Some 4]),
                    (''B'', Series Numeric [Some 10, Some 20, Some 30, Some 40])]"

text \<open>
  Stand-ins for the libraries behind the LRDImputer: a regression that rejects a
  response with a missing value (as sklearn does) and otherwise has intercept 1 and
  slopes 2, a sampler that returns a trace, draws read off the trace, and a helper
  that tells the two aggregations apart.
\<close>

definition demo_lrd_env :: "(int, nat) lrd_collaborators" where
  "demo_lrd_env =
     \<lparr>lm_fit = (\<lambda>X y. if None \<in> set (cells y) then None else Some (1, map (\<lambda>_. 2) X)),
      lm_predict = (\<lambda>(a, b) X. case X of [] \<Rightarrow> [] | (c, s) # _ \<Rightarrow> map (\<lambda>_. a) (cells s)),
      pm_sample = (\<lambda>m n t i. Some (n + t)),
      choice_alpha = (\<lambda>tr. int tr),
      draw_beta = (\<lambda>tr. [int tr]),
      linear_pred = (\<lambda>a b X. case X of [] \<Rightarrow> [] | (c, s) # _ \<Rightarrow> map (\<lambda>_. a) (cells s)),
      local_residuals = (\<lambda>x n df f. case f of Np_mean \<Rightarrow> x | Np_random_choice \<Rightarrow> x + 1)\<rparr>"

text \<open>An LRDImputer with the given \<open>fill_value\<close> and the defaults otherwise; the observed
  rows of the scenario (predictor \<open>B\<close>, response \<open>A\<close>), the row whose response is
  missing, a second data set, and a categorical response.\<close>

definition demo_lrd :: "string \<Rightarrow> (int, nat) lrd_imputer" where
  "demo_lrd fv = LRDImputer_init None 10 None 10 1 1000 1000 ''auto'' fv 5"

definition B_observed :: "int frame" where
  "B_observed = [(''B'', Series Numeric [Some 10, Some 20, Some 40])]"

definition A_observed :: "int series" where
  "A_observed = Series Numeric [Some 1, Some 2, Some 4]"





text \<open>The instance after \<open>fit\<close> on the observed rows.\<close>

definition lrd_fitted :: "string \<Rightarrow> (int, nat) lrd_imputer" where
  "lrd_fitted fv = snd (LRDImputer_fit demo_lrd_env (demo_lrd fv) B_observed A_observed)"

section \<open>Notions used in the statements\<close>

text \<open>The strategy names for which the loop body of \<open>transform\<close> calls an impute
  routine.\<close>

definition imputing_strategies :: "string list" where
  "imputing_strategies =
     [methods_LS, methods_BINARY_LOGISTIC, methods_MULTI_LOGISTIC, methods_STOCHASTIC,
      methods_BAYESIAN_LS, methods_BAYESIAN_BINARY_LOGISTIC, methods_PMM]"

text \<open>The enumerated set of strategy identifiers as the specification lists it.\<close>

definition spec_strategies :: "string list" where
  "spec_strategies =
     [methods_DEFAULT, methods_LS, methods_BINARY_LOGISTIC, methods_MULTI_LOGISTIC,
      methods_STOCHASTIC, methods_BAYESIAN_LS, methods_BAYESIAN_BINARY_LOGISTIC, methods_PMM,
      methods_LRD, methods_NONE]"

text \<open>Errors that come from a collaborator or from a missing key or attribute.\<close>

fun is_internal :: "error \<Rightarrow> bool" where
  "is_internal (KeyError _) = True"
| "is_internal (AttributeError _) = True"
| "is_internal (External _) = True"
| "is_internal _ = False"

text \<open>A column keeps its length and every cell that holds a value; a frame keeps its
  columns, in order, with their names and types, and each column keeps its values.\<close>

definition cells_kept :: "'v option list \<Rightarrow> 'v option list \<Rightarrow> bool" where
  "cells_kept cs cs' \<longleftrightarrow>
     length cs' = length cs \<and> (\<forall>i < length cs. cs ! i \<noteq> None \<longrightarrow> cs' ! i = cs ! i)"


text \<open>The instance fields that only \<open>fit\<close> and the constructor write.\<close>

definition same_fit_state ::
  "('v, 'p, 't, 'd) imputer \<Rightarrow> ('v, 'p, 't, 'd) imputer \<Rightarrow> bool" where
  "same_fit_state a b \<longleftrightarrow>
     strategy b = strategy a \<and> predictors b = predictors a \<and> fill_value b = fill_value a
     \<and> copy b = copy a \<and> scaler b = scaler a \<and> verbose b = verbose a \<and> strats b = strats a
     \<and> preds b = preds a \<and> prepared b = prepared a \<and> statistics b = statistics a"

section \<open>Auxiliary facts\<close>

lemmas methods_defs =
  methods_DEFAULT_def methods_LS_def methods_BINARY_LOGISTIC_def methods_MULTI_LOGISTIC_def
  methods_STOCHASTIC_def methods_BAYESIAN_LS_def methods_BAYESIAN_BINARY_LOGISTIC_def
  methods_PMM_def methods_LRD_def methods_NONE_def

subsection \<open>The dispatch\<close>

lemma dispatch_eq:
  "dispatch env col x fill ix strat X self =
     (if strat = methods_LS then imp_call env Imp_least_squares_reg col x fill ix X self
      else if strat = methods_BINARY_LOGISTIC \<or> strat = methods_MULTI_LOGISTIC
      then imp_call env Imp_logistic_reg col x fill ix X self
      else if strat = methods_STOCHASTIC then imp_call env Imp_stochastic_reg col x fill ix X self
      else if strat = methods_BAYESIAN_LS
      then imp_call_trace env Imp_bayes_least_squares_reg col x fill ix X self
      else if strat = methods_BAYESIAN_BINARY_LOGISTIC
      then imp_call_trace env Imp_bayes_logistic_reg col x fill ix X self
      else if strat = methods_PMM then imp_call_trace env Imp_pmm_reg col x fill ix X self
      else (Inr X, self))"
  by (auto simp add: dispatch_def only_if_def and_then_def methods_defs
      split: prod.splits sum.splits)

lemma imp_call_cases:
  assumes "imp_call env r col x fill ix X self = (res, self')"
  shows "self' = self
       \<and> ((\<exists>n. res = Inl (External n))
           \<or> (\<exists>vals. length vals = length ix \<and> res = Inr (loc_assign X col ix vals)))"
  using assms
  by (auto simp add: imp_call_def pm_imp_def split: option.splits prod.splits if_splits)

lemma imp_call_trace_cases:
  assumes "imp_call_trace env r col x fill ix X self = (res, self')"
  shows "same_fit_state self self' \<and> imputed self' = imputed self
       \<and> ((\<exists>e. res = Inl e \<and> is_internal e)
           \<or> (\<exists>vals. length vals = length ix \<and> res = Inr (loc_assign X col ix vals)))"
  using assms
  by (auto simp add: imp_call_trace_def pm_imp_def same_fit_state_def
      split: option.splits prod.splits if_splits)

lemma same_fit_state_refl [simp]: "same_fit_state a a"
  by (simp add: same_fit_state_def)

lemma same_fit_state_trans: "same_fit_state a b \<Longrightarrow> same_fit_state b c \<Longrightarrow> same_fit_state a c"
  by (simp add: same_fit_state_def)

lemma dispatch_shape:
  "(strat \<notin> set imputing_strategies \<and> dispatch env col x fill ix strat X self = (Inr X, self))
   \<or> (\<exists>r. dispatch env col x fill ix strat X self = imp_call env r col x fill ix X self)
   \<or> (\<exists>r. dispatch env col x fill ix strat X self = imp_call_trace env r col x fill ix X self)"
proof -
  have mem: "strat \<in> set imputing_strategies \<longleftrightarrow>
      strat = methods_LS \<or> strat = methods_BINARY_LOGISTIC \<or> strat = methods_MULTI_LOGISTIC
      \<or> strat = methods_STOCHASTIC \<or> strat = methods_BAYESIAN_LS
      \<or> strat = methods_BAYESIAN_BINARY_LOGISTIC \<or> strat = methods_PMM"
    by (simp add: imputing_strategies_def)
  show ?thesis
  proof (cases "strat \<in> set imputing_strategies")
    case False
    then show ?thesis unfolding mem by (simp add: dispatch_eq)
  next
    case True
    then consider "strat = methods_LS"
      | "strat \<noteq> methods_LS" "strat = methods_BINARY_LOGISTIC \<or> strat = methods_MULTI_LOGISTIC"
      | "strat \<noteq> methods_LS" "\<not> (strat = methods_BINARY_LOGISTIC \<or> strat = methods_MULTI_LOGISTIC)"
        "strat = methods_STOCHASTIC"
      | "strat \<noteq> methods_LS" "\<not> (strat = methods_BINARY_LOGISTIC \<or> strat = methods_MULTI_LOGISTIC)"
        "strat \<noteq> methods_STOCHASTIC" "strat = methods_BAYESIAN_LS"
      | "strat \<noteq> methods_LS" "\<not> (strat = methods_BINARY_LOGISTIC \<or> strat = methods_MULTI_LOGISTIC)"
        "strat \<noteq> methods_STOCHASTIC" "strat \<noteq> methods_BAYESIAN_LS"
        "strat = methods_BAYESIAN_BINARY_LOGISTIC"
      | "strat \<noteq> methods_LS" "\<not> (strat = methods_BINARY_LOGISTIC \<or> strat = methods_MULTI_LOGISTIC)"
        "strat \<noteq> methods_STOCHASTIC" "strat \<noteq> methods_BAYESIAN_LS"
        "strat \<noteq> methods_BAYESIAN_BINARY_LOGISTIC" "strat = methods_PMM"
      unfolding mem by blast
    then show ?thesis
    proof cases
      case 1
      then have "dispatch env col x fill ix strat X self
                 = imp_call env Imp_least_squares_reg col x fill ix X self"
        by (simp add: dispatch_eq)
      then show ?thesis by blast
    next
      case 2
      then have "dispatch env col x fill ix strat X self
                 = imp_call env Imp_logistic_reg col x fill ix X self"
        by (auto simp add: dispatch_eq)
      then show ?thesis by blast
    next
      case 3
      then have "dispatch env col x fill ix strat X self
                 = imp_call env Imp_stochastic_reg col x fill ix X self"
        by (auto simp add: dispatch_eq)
      then show ?thesis by blast
    next
      case 4
      then have "dispatch env col x fill ix strat X self
                 = imp_call_trace env Imp_bayes_least_squares_reg col x fill ix X self"
        by (auto simp add: dispatch_eq)
      then show ?thesis by blast
    next
      case 5
      then have "dispatch env col x fill ix strat X self
                 = imp_call_trace env Imp_bayes_logistic_reg col x fill ix X self"
        by (auto simp add: dispatch_eq)
      then show ?thesis by blast
    next
      case 6
      then have "dispatch env col x fill ix strat X self
                 = imp_call_trace env Imp_pmm_reg col x fill ix X self"
        by (auto simp add: dispatch_eq)
      then show ?thesis by blast
    qed
  qed
qed

lemma dispatch_cases:
  assumes "dispatch env col x fill ix strat X self = (res, self')"
  shows "same_fit_state self self' \<and> imputed self' = imputed self
       \<and> ((\<exists>e. res = Inl e \<and> is_internal e)
           \<or> (res = Inr X \<and> strat \<notin> set imputing_strategies)
           \<or> (\<exists>vals. length vals = length ix \<and> res = Inr (loc_assign X col ix vals)))"
proof -
  consider (plain) r where "imp_call env r col x fill ix X self = (res, self')"
    | (traced) r where "imp_call_trace env r col x fill ix X self = (res, self')"
    | (none) "res = Inr X" "self' = self" "strat \<notin> set imputing_strategies"
    using assms dispatch_shape [of strat env col x fill ix X self] by auto
  then show ?thesis
  proof cases
    case plain
    from imp_call_cases [OF this] show ?thesis by auto
  next
    case traced
    from imp_call_trace_cases [OF this] show ?thesis by auto
  next
    case none
    then show ?thesis by simp
  qed
qed

lemma impute_column_cases:
  assumes "impute_column env col fill strat ix X self = (res, self')"
  shows "same_fit_state self self' \<and> imputed self' = imputed self
       \<and> ((\<exists>e. res = Inl e \<and> is_internal e)
           \<or> (res = Inr X \<and> strat \<notin> set imputing_strategies)
           \<or> (\<exists>vals. length vals = length ix \<and> res = Inr (loc_assign X col ix vals)))"
proof (cases "\<exists>x. dispatch env col x fill ix strat X self = (res, self')")
  case True
  then obtain x where "dispatch env col x fill ix strat X self = (res, self')" ..
  from dispatch_cases [OF this] show ?thesis .
next
  case False
  then have "self' = self \<and> (\<exists>e. res = Inl e \<and> is_internal e)"
    using assms
    by (auto simp add: impute_column_def predictor_cols_def
        split: option.splits sum.splits if_splits)
  then show ?thesis by auto
qed

subsection \<open>Cells and frames\<close>

lemma length_assign_cells [simp]: "length (assign_cells cs ix vals) = length cs"
  by (induction cs ix vals rule: assign_cells.induct) simp_all






lemma cells_kept_refl [simp]: "cells_kept cs cs"
  by (simp add: cells_kept_def)












subsection \<open>The loop of transform\<close>

lemma and_then_cases:
  assumes "and_then r f = (res, s')"
  shows "(\<exists>e. r = (Inl e, s') \<and> res = Inl e) \<or> (\<exists>a s. r = (Inr a, s) \<and> f a s = (res, s'))"
  using assms by (auto simp add: and_then_def split: prod.splits sum.splits)


lemma transform_columns_state:
  "transform_columns env stats X self = (res, self')
   \<Longrightarrow> same_fit_state self self' \<and> (\<forall>e. res = Inl e \<longrightarrow> is_internal e)"
proof (induction stats arbitrary: X self)
  case Nil
  then show ?case by auto
next
  case (Cons a stats)
  obtain c p strat where a: "a = (c, p, strat)" by (cases a)
  show ?case
  proof (cases "getitem X c")
    case None
    then show ?thesis using Cons.prems a by auto
  next
    case (Some s)
    note s = this
    show ?thesis
    proof (cases "imputed self")
      case None
      then show ?thesis using Cons.prems a s by auto
    next
      case (Some imps)
      define self1 where "self1 = self\<lparr>imputed := Some (dict_set imps c (null_index s))\<rparr>"
      have st1: "same_fit_state self self1" by (simp add: self1_def same_fit_state_def)
      show ?thesis
      proof (cases "null_index s = []")
        case True
        then have "transform_columns env stats X self1 = (res, self')"
          using Cons.prems a s Some by (simp add: self1_def)
        from Cons.IH [OF this] st1 show ?thesis by (auto intro: same_fit_state_trans)
      next
        case False
        then have "and_then (impute_column env c p strat (null_index s) X self1)
                     (transform_columns env stats) = (res, self')"
          using Cons.prems a s Some by (simp add: self1_def Let_def)
        from and_then_cases [OF this] show ?thesis
        proof (elim disjE exE conjE)
          fix e
          assume "impute_column env c p strat (null_index s) X self1 = (Inl e, self')" "res = Inl e"
          with impute_column_cases [OF this(1)] st1 show ?thesis
            by (auto intro: same_fit_state_trans)
        next
          fix X1 self2
          assume ic: "impute_column env c p strat (null_index s) X self1 = (Inr X1, self2)"
            and tc: "transform_columns env stats X1 self2 = (res, self')"
          from impute_column_cases [OF ic] have "same_fit_state self1 self2" by simp
          with Cons.IH [OF tc] st1 show ?thesis by (auto intro: same_fit_state_trans)
        qed
      qed
    qed
  qed
qed





lemma validator_cases:
  assumes "statistics self = Some stats" and "strats self = Some ss"
    and "transform_strategy_validator env self X new_data = (res, self1)"
  shows "((\<exists>c \<in> set (map fst ss). c \<notin> set (columns X)) \<and> res = Inl SchemaMismatch \<and> self1 = self)
       \<or> (\<not> (\<exists>c \<in> set (map fst ss). c \<notin> set (columns X))
            \<and> ((\<exists>n. res = Inl (External n)) \<or> res = Inr ())
            \<and> statistics self1 = statistics self 
            \<and> (\<not> new_data \<longrightarrow> self1 = self))"
  using assms
  by (auto simp add: transform_strategy_validator_def Let_def filter_empty_conv
      split: option.splits if_splits)

lemma validator_keeps:
  assumes "transform_strategy_validator env self X new_data = (res, self1)"
  shows "statistics self1 = statistics self \<and> (\<not> new_data \<longrightarrow> self1 = self)"
  using assms
  by (auto simp add: transform_strategy_validator_def Let_def
      split: option.splits if_splits)


lemma transform_keeps_fit_state:
  "same_fit_state self (snd (PredictiveImputer_transform env self X False))"
proof -
  obtain res self1 where v: "transform_strategy_validator env self X False = (res, self1)"
    by (cases "transform_strategy_validator env self X False")
  from validator_keeps [OF v] have s1: "self1 = self" by simp
  show ?thesis
  proof (cases "check_nan_columns env X \<and> res = Inr () \<and> statistics self \<noteq> None")
    case False
    then show ?thesis using v s1
      by (cases res) (auto simp add: PredictiveImputer_transform_def same_fit_state_def)
  next
    case True
    then obtain stats where st: "statistics self = Some stats" by auto
    define self2 where "self2 = self\<lparr>imputed := Some [], traces := Some []\<rparr>"
    have "PredictiveImputer_transform env self X False = transform_columns env stats X self2"
      using True v s1 st by (simp add: PredictiveImputer_transform_def self2_def)
    moreover obtain r s where rs: "transform_columns env stats X self2 = (r, s)"
      by (cases "transform_columns env stats X self2")
    moreover have "same_fit_state self self2" by (simp add: same_fit_state_def self2_def)
    ultimately show ?thesis using transform_columns_state [OF rs]
      by (auto intro: same_fit_state_trans)
  qed
qed

lemma set_strategies:
  "set strategies = {''default'', ''least squares'', ''binary logistic'', ''multinomial logistic'',
      ''stochastic'', ''bayesian least squares'', ''bayesian binary logistic'', ''pmm''}"
  by (simp add: strategies_def methods_defs)

section \<open>C1: transform fills exactly the null positions\<close>



section \<open>C2: fit_transform is fit followed by transform without new data\<close>

text \<open>
  Claim C2. For every frame that \<open>fit\<close> accepts, \<open>fit_transform\<close> gives the result and the
  instance of \<open>transform\<close> with \<open>new_data = False\<close> on the fitted instance; and that
  \<open>transform\<close> leaves everything \<open>fit\<close> has written untouched, in particular the prepared
  data: nothing is encoded again.
\<close>

theorem fit_transform_is_fit_then_transform:
  assumes "PredictiveImputer_fit env self X = (Inr (), self1)"
  shows "PredictiveImputer_fit_transform env self X = PredictiveImputer_transform env self1 X False
       \<and> same_fit_state self1 (snd (PredictiveImputer_fit_transform env self X))"
proof -
  have "PredictiveImputer_fit_transform env self X = PredictiveImputer_transform env self1 X False"
    using assms by (simp add: PredictiveImputer_fit_transform_def)
  then show ?thesis using transform_keeps_fit_state [of self1 env X] by simp
qed

text \<open>
  On the two-column table \<open>fit\<close> succeeds and \<open>fit_transform\<close> returns the filled table.
\<close>

theorem fit_transform_is_fit_then_transform_witness:
  "PredictiveImputer_fit demo_env imp_ls df_AB = (Inr (), fitted_AB)
   \<and> PredictiveImputer_fit_transform demo_env imp_ls df_AB
       = PredictiveImputer_transform demo_env fitted_AB df_AB False
   \<and> fst (PredictiveImputer_fit_transform demo_env imp_ls df_AB) = Inr df_AB_imputed"
proof -
  have "fst (PredictiveImputer_fit demo_env imp_ls df_AB) = Inr ()" by code_simp
  then have h: "PredictiveImputer_fit demo_env imp_ls df_AB = (Inr (), fitted_AB)"
    by (simp add: prod_eq_iff fitted_AB_def)
  have r: "fst (PredictiveImputer_transform demo_env fitted_AB df_AB False) = Inr df_AB_imputed"
    by code_simp
  from fit_transform_is_fit_then_transform [OF h] h r show ?thesis by simp
qed

section \<open>C3: the strategy names that are accepted\<close>

text \<open>
  Claim C3, as stated, says that the strategy validation accepts the ten identifiers of
  the specification, \<open>lrd\<close> and \<open>none\<close> among them. The strategy table of the class has
  eight keys; a PredictiveImputer asked for \<open>lrd\<close> or \<open>none\<close> for a column is refused.
\<close>

theorem unknown_strategy_counterexample:
  "methods_LRD \<in> set spec_strategies \<and> methods_NONE \<in> set spec_strategies
   \<and> new_imputer (Dict [(''A'', methods_LRD)]) = Inl UnknownStrategy
   \<and> new_imputer (Dict [(''A'', methods_NONE)]) = Inl UnknownStrategy"
  by (simp add: spec_strategies_def new_imputer_def PredictiveImputer_init_def strategy_setter_def
      check_strategy_allowed_def named_strategies_def strategies_def methods_defs)

text \<open>
  Claim C3, amended. Constructing a PredictiveImputer, or assigning its strategy, raises
  UnknownStrategy if and only if some strategy named by the argument is not one of the
  eight keys of the strategy table: default, least squares, binary logistic, multinomial
  logistic, stochastic, bayesian least squares, bayesian binary logistic, pmm. The
  constructor raises no other error.
\<close>

theorem unknown_strategy_iff:
  "(PredictiveImputer_init s p fv c sc vb = Inl UnknownStrategy
      \<longleftrightarrow> (\<exists>n \<in> set (named_strategies s). n \<notin> set strategies))
   \<and> (\<forall>e. PredictiveImputer_init s p fv c sc vb = Inl e \<longrightarrow> e = UnknownStrategy)
   \<and> (fst (strategy_setter self s) = Inl UnknownStrategy
      \<longleftrightarrow> (\<exists>n \<in> set (named_strategies s). n \<notin> set strategies))
   \<and> set strategies = {''default'', ''least squares'', ''binary logistic'', ''multinomial logistic'',
        ''stochastic'', ''bayesian least squares'', ''bayesian binary logistic'', ''pmm''}"
  using set_strategies
  by (auto simp add: PredictiveImputer_init_def strategy_setter_def check_strategy_allowed_def Let_def
      split: prod.splits sum.splits)

text \<open>
  \<open>lrd\<close> is refused, \<open>pmm\<close> for a column is accepted.
\<close>

theorem unknown_strategy_iff_witness:
  "new_imputer (Str ''lrd'') = Inl UnknownStrategy
   \<and> new_imputer (Dict [(''A'', ''pmm'')]) \<noteq> Inl UnknownStrategy"
  unfolding new_imputer_def
  by (simp add: unknown_strategy_iff [THEN conjunct1] named_strategies_def strategies_def
      methods_defs)

section \<open>C4: when the fill value of the LRDImputer is checked\<close>




section \<open>C5: the columns required by transform\<close>

text \<open>
  Claim C5, as stated, says that \<open>transform\<close> raises SchemaMismatch whenever the columns of
  the frame differ from the columns recorded at fit time. After \<open>fit\<close> on the columns
  \<open>A\<close> and \<open>B\<close>, \<open>transform\<close> of a frame with the columns \<open>A\<close>, \<open>B\<close> and \<open>C\<close> returns a
  table.
\<close>

theorem transform_schema_mismatch_counterexample:
  "strats fitted_AB = Some [(''A'', ''least squares''), (''B'', ''least squares'')]
   \<and> columns df_AB = [''A'', ''B'']
   \<and> columns df_ABC = [''A'', ''B'', ''C'']
   \<and> fst (PredictiveImputer_transform demo_env fitted_AB df_ABC True)
       = Inr [(''A'', Series Numeric [Some 1, Some 2, Some 60, Some 4]),
              (''B'', Series Numeric [Some 10, Some 20, Some 30, Some 40]),
              (''C'', Series Categorical [Some 0, None, Some 1, Some 0])]"
  by code_simp

text \<open>
  Claim C5, amended. On a fitted instance and a frame that passes the column check of the
  decorator, \<open>transform\<close> (and its validator) raises SchemaMismatch if and only if some
  column recorded at fit time, a key of \<open>_strats\<close>, is absent from the frame. Additional
  columns and another column order are accepted.
\<close>

theorem transform_schema_mismatch_iff:
  assumes "check_nan_columns env X" and "statistics self = Some stats" and "strats self = Some ss"
  shows "(fst (transform_strategy_validator env self X new_data) = Inl SchemaMismatch
            \<longleftrightarrow> (\<exists>c \<in> set (map fst ss). c \<notin> set (columns X)))
       \<and> (fst (PredictiveImputer_transform env self X new_data) = Inl SchemaMismatch
            \<longleftrightarrow> (\<exists>c \<in> set (map fst ss). c \<notin> set (columns X)))"
proof -
  obtain res self1 where v: "transform_strategy_validator env self X new_data = (res, self1)"
    by (cases "transform_strategy_validator env self X new_data")
  from validator_cases [OF assms(2,3) v]
  consider (missing) "\<exists>c \<in> set (map fst ss). c \<notin> set (columns X)" "res = Inl SchemaMismatch"
    | (ext) n where "\<not> (\<exists>c \<in> set (map fst ss). c \<notin> set (columns X))" "res = Inl (External n)"
    | (ok) "\<not> (\<exists>c \<in> set (map fst ss). c \<notin> set (columns X))" "res = Inr ()"
        "statistics self1 = Some stats"
    using assms(2) by auto
  then show ?thesis
  proof cases
    case missing
    then show ?thesis using v assms(1) by (simp add: PredictiveImputer_transform_def)
  next
    case ext
    then show ?thesis using v assms(1) by (simp add: PredictiveImputer_transform_def)
  next
    case ok
    define self2 where "self2 = self1\<lparr>imputed := Some [], traces := Some []\<rparr>"
    have t: "PredictiveImputer_transform env self X new_data = transform_columns env stats X self2"
      using v ok assms(1) by (simp add: PredictiveImputer_transform_def self2_def)
    obtain r s where rs: "transform_columns env stats X self2 = (r, s)"
      by (cases "transform_columns env stats X self2")
    from transform_columns_state [OF rs] have "r \<noteq> Inl SchemaMismatch" by auto
    then show ?thesis using v ok t rs by simp
  qed
qed

text \<open>
  After \<open>fit\<close> on the columns \<open>A\<close> and \<open>B\<close>, a frame without \<open>A\<close> is refused.
\<close>

theorem transform_schema_mismatch_iff_witness:
  "check_nan_columns demo_env df_B_only
   \<and> statistics fitted_AB = Some [(''A'', 1, ''least squares''), (''B'', 1, ''least squares'')]
   \<and> strats fitted_AB = Some [(''A'', ''least squares''), (''B'', ''least squares'')]
   \<and> fst (PredictiveImputer_transform demo_env fitted_AB df_B_only True) = Inl SchemaMismatch"
proof -
  have h1: "check_nan_columns demo_env df_B_only" by code_simp
  have h2: "statistics fitted_AB = Some [(''A'', 1, ''least squares''), (''B'', 1, ''least squares'')]"
    by code_simp
  have h3: "strats fitted_AB = Some [(''A'', ''least squares''), (''B'', ''least squares'')]"
    by code_simp
  have "''A'' \<notin> set (columns df_B_only)" by code_simp
  with transform_schema_mismatch_iff [OF h1 h2 h3, of True] h1 h2 h3 show ?thesis by simp
qed

section \<open>C6: transform before fit\<close>

text \<open>
  Claim C6, as stated, says that \<open>transform\<close> raises NotFittedError on every instance on
  which \<open>fit\<close> has not completed. \<open>fit\<close> assigns \<open>statistics_\<close> before its loop over the
  columns; when the fit of a later column raises, the attribute stays, and a following
  \<open>transform\<close> passes the check and returns a table. Here the fit of the categorical
  column \<open>C\<close> raises after \<open>A\<close> and \<open>B\<close> have been fitted.
\<close>

theorem transform_not_fitted_counterexample:
  "statistics imp_ls = None
   \<and> fst (PredictiveImputer_fit demo_env imp_ls df_ABC) = Inl (External ''fit'')
   \<and> failed_ABC = snd (PredictiveImputer_fit demo_env imp_ls df_ABC)
   \<and> statistics failed_ABC = Some [(''A'', 2, ''least squares''), (''B'', 2, ''least squares'')]
   \<and> fst (PredictiveImputer_transform demo_env failed_ABC df_ABC True)
       = Inr [(''A'', Series Numeric [Some 1, Some 2, Some 60, Some 4]),
              (''B'', Series Numeric [Some 10, Some 20, Some 30, Some 40]),
              (''C'', Series Categorical [Some 0, None, Some 1, Some 0])]"
proof -
  have "statistics imp_ls = None"
    and "fst (PredictiveImputer_fit demo_env imp_ls df_ABC) = Inl (External ''fit'')"
    and "statistics failed_ABC = Some [(''A'', 2, ''least squares''), (''B'', 2, ''least squares'')]"
    and "fst (PredictiveImputer_transform demo_env failed_ABC df_ABC True)
         = Inr [(''A'', Series Numeric [Some 1, Some 2, Some 60, Some 4]),
                (''B'', Series Numeric [Some 10, Some 20, Some 30, Some 40]),
                (''C'', Series Categorical [Some 0, None, Some 1, Some 0])]"
    by code_simp+
  then show ?thesis by (simp add: failed_ABC_def)
qed

text \<open>
  Claim C6, amended. On an instance whose attribute \<open>statistics_\<close> has never been assigned
  (no call of \<open>fit\<close> has got past its validation), \<open>transform\<close> of every frame that passes
  the column check of the decorator raises NotFittedError, and the instance is unchanged.
\<close>

theorem transform_not_fitted:
  assumes "statistics self = None" and "check_nan_columns env X"
  shows "PredictiveImputer_transform env self X new_data = (Inl NotFittedError, self)"
  using assms by (simp add: PredictiveImputer_transform_def transform_strategy_validator_def)

text \<open>
  A new instance.
\<close>

theorem transform_not_fitted_witness:
  "statistics imp_ls = None \<and> check_nan_columns demo_env df_AB
   \<and> PredictiveImputer_transform demo_env imp_ls df_AB True = (Inl NotFittedError, imp_ls)"
proof -
  have h1: "statistics imp_ls = None" by code_simp
  have h2: "check_nan_columns demo_env df_AB" by code_simp
  from transform_not_fitted [OF h1 h2] h1 h2 show ?thesis by simp
qed

section \<open>C7: the fill value of the LRDImputer\<close>



section \<open>C8: a numeric-only strategy on a categorical column\<close>



section \<open>C9: a table without missing values\<close>



section \<open>C10: the prior means of the LRDImputer after fit\<close>

text \<open>
  Claim C10. When \<open>fit\<close> of the LRDImputer succeeds, an \<open>am\<close> that was None is now the
  intercept and a \<open>bm\<close> that was None is now the coefficient vector of the least-squares
  fit of this call; neither is None afterwards; and every later successful \<open>fit\<close>, on
  whatever data, keeps both and builds its model with them as prior means.
\<close>

theorem lrd_fit_sets_prior_means:
  assumes "LRDImputer_fit env self X y = (Inr (), self1)"
  shows "\<exists>a b. lm_fit env X y = Some (a, b)
           \<and> (am self = None \<longrightarrow> am self1 = Some a)
           \<and> (bm self = None \<longrightarrow> bm self1 = Some (Vector b))
           \<and> am self1 \<noteq> None \<and> bm self1 \<noteq> None
           \<and> (\<forall>X2 y2 self2. LRDImputer_fit env self1 X2 y2 = (Inr (), self2) \<longrightarrow>
                 am self2 = am self1 \<and> bm self2 = bm self1
                 \<and> (\<exists>m df. lrd_statistics self2 = Some ((m, df), methods_LRD)
                       \<and> am self1 = Some (alpha_mu m) \<and> bm self1 = Some (beta_mu m)))"
  using assms
  by (auto simp add: LRDImputer_fit_def Let_def split: option.splits prod.splits)

text \<open>
  The first fit of a new instance with the defaults.
\<close>

theorem lrd_fit_sets_prior_means_witness:
  "LRDImputer_fit demo_lrd_env (demo_lrd ''random'') B_observed A_observed
     = (Inr (), lrd_fitted ''random'')
   \<and> am (demo_lrd ''random'') = None \<and> bm (demo_lrd ''random'') = None
   \<and> am (lrd_fitted ''random'') = Some 1 \<and> bm (lrd_fitted ''random'') = Some (Vector [2])"
proof -
  have "fst (LRDImputer_fit demo_lrd_env (demo_lrd ''random'') B_observed A_observed) = Inr ()"
    by code_simp
  then have h: "LRDImputer_fit demo_lrd_env (demo_lrd ''random'') B_observed A_observed
                = (Inr (), lrd_fitted ''random'')"
    by (simp add: prod_eq_iff lrd_fitted_def)
  have a: "am (demo_lrd ''random'') = None" "bm (demo_lrd ''random'') = None" by code_simp+
  have f: "lm_fit demo_lrd_env B_observed A_observed = Some (1, [2])" by code_simp
  from lrd_fit_sets_prior_means [OF h] a f h show ?thesis by auto
qed

end
